theory Spec2Isabelle
  imports Main "HOL-Library.Word"
begin

section \<open>Values, exceptions and the HTTP environment\<close>

text \<open>
  The client of \<^verbatim>\<open>custom_components/sector/client.py\<close> handles decoded JSON values.
  Python's \<^verbatim>\<open>None\<close> and JSON's \<^verbatim>\<open>null\<close> are the same object after decoding, so
  \<open>JNull\<close> stands for both. Objects are dictionaries, kept as association lists that
  are read with \<open>map_of\<close>. Numbers are integers here.
\<close>

datatype json =
    JNull
  | JBool bool
  | JInt int
  | JStr string
  | JArr "json list"
  | JObj "(string \<times> json) list"

text \<open>Python's truth value of a decoded value, as tested by \<^verbatim>\<open>if response:\<close>.\<close>

fun truthy :: "json \<Rightarrow> bool" where
  "truthy JNull = False"
| "truthy (JBool b) = b"
| "truthy (JInt n) = (n \<noteq> 0)"
| "truthy (JStr s) = (s \<noteq> [])"
| "truthy (JArr xs) = (xs \<noteq> [])"
| "truthy (JObj kvs) = (kvs \<noteq> [])"

text \<open>
  The exceptions that can travel through the client. \<open>TimeoutError\<close> is
  \<^verbatim>\<open>asyncio.TimeoutError\<close>, \<open>ClientError\<close> is \<^verbatim>\<open>aiohttp.ClientError\<close> with all its
  subclasses, \<open>AuthenticationError\<close> is the class the module declares (with its message).
  The others are what Python raises on a missing attribute, a missing key, a wrong
  argument type, an undecodable JSON text, undecodable base64 text and body bytes that
  are not text in the charset of the response.
\<close>

datatype exn =
    TimeoutError
  | ClientError
  | AuthenticationError string
  | AttributeError
  | KeyError
  | TypeError
  | ValueError
  | JSONDecodeError
  | BinasciiError
  | UnicodeDecodeError

datatype http_method = GET | POST

record request =
  req_method :: http_method
  req_url :: string
  req_json :: "json option"
  req_headers :: "(string \<times> string) list"

text \<open>
  What the client looks at in a response: the status code, the \<^verbatim>\<open>Content-Type\<close> header
  (if there is one), what awaiting \<^verbatim>\<open>response.json()\<close> yields and what awaiting
  \<^verbatim>\<open>response.text()\<close> yields, each a value or an exception raised by the library. The
  text is only used in a log message, and log messages are not modelled, but reading it
  can fail like any other read.
\<close>

record response =
  status :: int
  content_type :: "string option"
  json_result :: "exn + json"
  text_result :: "exn + string"

text \<open>
  One exchange either delivers a response or raises: \<open>Raised TimeoutError\<close> when the
  10 second bound of \<^verbatim>\<open>async_timeout.timeout(10)\<close> expires, \<open>Raised ClientError\<close> on a
  transport-level error.
\<close>

datatype http_outcome = Responded response | Raised exn

text \<open>
  The network is a parameter: it answers a request, possibly depending on all requests
  sent before. The world records the requests sent and the client sessions
  (\<^verbatim>\<open>aiohttp.ClientSession\<close> objects) created and still open.
\<close>

type_synonym network = "request list \<Rightarrow> request \<Rightarrow> http_outcome"

record world =
  sent :: "request list"
  created :: nat
  open_sessions :: "nat list"

definition http_request :: "network \<Rightarrow> request \<Rightarrow> world \<Rightarrow> http_outcome \<times> world" where
  "http_request net rq w = (net (sent w) rq, w\<lparr>sent := sent w @ [rq]\<rparr>)"

section \<open>The client object\<close>

record api =
  email :: string
  password :: string
  panel_id :: string
  panel_code :: string
  access_token :: json
  headers :: "(string \<times> string) list"
  session :: "nat option"
  data_endpoints :: "(string \<times> string \<times> string) list"
  action_endpoints :: "(string \<times> string \<times> string) list"

type_synonym state = "api \<times> world"

definition API_URL :: string where
  "API_URL = ''https://mypagesapi.sectoralarm.net''"

text \<open>
  \<^verbatim>\<open>__init__\<close>. The two endpoint tables come from \<^verbatim>\<open>endpoints.py\<close>, which is not part
  of the sources at hand: they are parameters, dictionaries from a key to a pair of
  method and URL.
\<close>

definition init ::
  "string \<Rightarrow> string \<Rightarrow> string \<Rightarrow> string \<Rightarrow> (string \<times> string \<times> string) list \<Rightarrow>
   (string \<times> string \<times> string) list \<Rightarrow> api" where
  "init em pw pid pcode data_eps action_eps =
     \<lparr>email = em, password = pw, panel_id = pid, panel_code = pcode,
      access_token = JNull, headers = [], session = None,
      data_endpoints = data_eps, action_endpoints = action_eps\<rparr>"

section \<open>Request executor\<close>

text \<open>\<^verbatim>\<open>'application/json' in content_type\<close>: substring test.\<close>

fun str_contains :: "string \<Rightarrow> string \<Rightarrow> bool" where
  "str_contains sub [] = (sub = [])"
| "str_contains sub (c # cs) = (take (length sub) (c # cs) = sub \<or> str_contains sub cs)"

definition header_or_empty :: "response \<Rightarrow> string" where
  "header_or_empty r = (case content_type r of None \<Rightarrow> [] | Some c \<Rightarrow> c)"

text \<open>
  \<^verbatim>\<open>text = await response.text()\<close>, the log call, \<^verbatim>\<open>return None\<close>: the two branches that
  give no result first read the body text, and an exception of that read leaves the
  block.
\<close>

definition log_text_return_none :: "response \<Rightarrow> exn + json" where
  "log_text_return_none r =
     (case text_result r of
        Inl e \<Rightarrow> Inl e
      | Inr text \<Rightarrow> Inr JNull)"

text \<open>
  The body of the \<^verbatim>\<open>async with\<close> block that \<^verbatim>\<open>_get\<close> and \<^verbatim>\<open>_post\<close> share word for
  word: status 200 and a JSON content type lead to \<^verbatim>\<open>await response.json()\<close>, a 200
  response of another content type and every other status to the logged \<^verbatim>\<open>None\<close>.
\<close>

definition read_response :: "http_outcome \<Rightarrow> exn + json" where
  "read_response out =
     (case out of
        Raised e \<Rightarrow> Inl e
      | Responded r \<Rightarrow>
          if status r = 200 then
            (if str_contains ''application/json'' (header_or_empty r)
             then json_result r
             else log_text_return_none r)
          else log_text_return_none r)"

text \<open>The two \<^verbatim>\<open>except\<close> clauses: a timeout and a client error become \<^verbatim>\<open>None\<close>.\<close>

fun absorbed :: "exn \<Rightarrow> bool" where
  "absorbed TimeoutError = True"
| "absorbed ClientError = True"
| "absorbed _ = False"

definition except_to_none :: "exn + json \<Rightarrow> exn + json" where
  "except_to_none res =
     (case res of
        Inl e \<Rightarrow> if absorbed e then Inr JNull else Inl e
      | Inr v \<Rightarrow> Inr v)"

text \<open>
  \<^verbatim>\<open>_get\<close> and \<^verbatim>\<open>_post\<close>. With no session object, \<^verbatim>\<open>self.session.get\<close> is an
  attribute lookup on \<^verbatim>\<open>None\<close>, which neither \<^verbatim>\<open>except\<close> clause catches.
\<close>

definition get_request :: "api \<Rightarrow> string \<Rightarrow> request" where
  "get_request self u =
     \<lparr>req_method = GET, req_url = u, req_json = None, req_headers = headers self\<rparr>"

definition post_request :: "api \<Rightarrow> string \<Rightarrow> json \<Rightarrow> request" where
  "post_request self u payload =
     \<lparr>req_method = POST, req_url = u, req_json = Some payload, req_headers = headers self\<rparr>"

definition priv_get :: "network \<Rightarrow> string \<Rightarrow> state \<Rightarrow> (exn + json) \<times> state" where
  "priv_get net u st =
     (case st of (self, w) \<Rightarrow>
        (case session self of
           None \<Rightarrow> (Inl AttributeError, self, w)
         | Some h \<Rightarrow>
             (case http_request net (get_request self u) w of
                (out, w') \<Rightarrow> (except_to_none (read_response out), self, w'))))"

definition priv_post :: "network \<Rightarrow> string \<Rightarrow> json \<Rightarrow> state \<Rightarrow> (exn + json) \<times> state" where
  "priv_post net u payload st =
     (case st of (self, w) \<Rightarrow>
        (case session self of
           None \<Rightarrow> (Inl AttributeError, self, w)
         | Some h \<Rightarrow>
             (case http_request net (post_request self u payload) w of
                (out, w') \<Rightarrow> (except_to_none (read_response out), self, w'))))"

section \<open>Session manager\<close>



text \<open>
  \<^verbatim>\<open>data.get(key)\<close>: the value, or \<^verbatim>\<open>None\<close> for a missing key. Only a dictionary has the
  method; on any other decoded value the attribute lookup fails.
\<close>

definition dict_get :: "json \<Rightarrow> string \<Rightarrow> exn + json" where
  "dict_get d k =
     (case d of
        JObj kvs \<Rightarrow> Inr (case map_of kvs k of None \<Rightarrow> JNull | Some v \<Rightarrow> v)
      | _ \<Rightarrow> Inl AttributeError)"

text \<open>
  \<^verbatim>\<open>f"Bearer {self.access_token}"\<close>. A token that is a string is inserted as it is; how
  Python prints any other value is the parameter \<open>fmt\<close>.
\<close>

definition bearer :: "(json \<Rightarrow> string) \<Rightarrow> json \<Rightarrow> string" where
  "bearer fmt tok = ''Bearer '' @ (case tok of JStr s \<Rightarrow> s | _ \<Rightarrow> fmt tok)"

definition auth_headers :: "(json \<Rightarrow> string) \<Rightarrow> json \<Rightarrow> (string \<times> string) list" where
  "auth_headers fmt tok =
     [(''Authorization'', bearer fmt tok), (''Accept'', ''application/json'')]"

definition login_request :: "api \<Rightarrow> request" where
  "login_request self =
     \<lparr>req_method = POST, req_url = API_URL @ ''/api/Login/Login'',
      req_json = Some (JObj [(''userId'', JStr (email self)),
                             (''password'', JStr (password self))]),
      req_headers = []\<rparr>"


text \<open>\<^verbatim>\<open>close\<close> and \<^verbatim>\<open>logout\<close>. The result of the logout request is dropped.\<close>

definition close :: "state \<Rightarrow> (exn + unit) \<times> state" where
  "close st =
     (case st of (self, w) \<Rightarrow>
        (case session self of
           None \<Rightarrow> (Inr (), self, w)
         | Some h \<Rightarrow>
             (Inr (), self\<lparr>session := None\<rparr>,
              w\<lparr>open_sessions := removeAll h (open_sessions w)\<rparr>)))"


section \<open>Data aggregator\<close>

text \<open>\<^verbatim>\<open>data[key] = value\<close> on a dictionary kept as an association list.\<close>

fun dict_set :: "string \<Rightarrow> json \<Rightarrow> (string \<times> json) list \<Rightarrow> (string \<times> json) list" where
  "dict_set k v [] = [(k, v)]"
| "dict_set k v ((k', v') # kvs) =
     (if k' = k then (k, v) # kvs else (k', v') # dict_set k v kvs)"

definition lock_status_url :: "api \<Rightarrow> string" where
  "lock_status_url self = API_URL @ ''/api/panel/GetLockStatus?panelId='' @ panel_id self"

definition get_lock_status :: "network \<Rightarrow> state \<Rightarrow> (exn + json) \<times> state" where
  "get_lock_status net st =
     (case priv_get net (lock_status_url (fst st)) st of
        (Inl e, st') \<Rightarrow> (Inl e, st')
      | (Inr response, st') \<Rightarrow>
          (Inr (if truthy response then response else JArr []), st'))"

text \<open>
  The \<^verbatim>\<open>for\<close> loop of \<^verbatim>\<open>retrieve_all_data\<close> over the items of \<^verbatim>\<open>self.data_endpoints\<close>,
  with the dictionary \<^verbatim>\<open>data\<close> as accumulator. An exception of a helper leaves the loop.
\<close>

fun fetch_entries ::
  "network \<Rightarrow> (string \<times> string \<times> string) list \<Rightarrow> (string \<times> json) list \<Rightarrow> state \<Rightarrow>
   (exn + (string \<times> json) list) \<times> state" where
  "fetch_entries net [] data st = (Inr data, st)"
| "fetch_entries net ((key, method, u) # rest) data st =
     (if method = ''GET'' then
        (case priv_get net u st of
           (Inl e, st') \<Rightarrow> (Inl e, st')
         | (Inr response, st') \<Rightarrow>
             fetch_entries net rest
               (if truthy response then dict_set key response data else data) st')
      else if method = ''POST'' then
        (case priv_post net u (JObj [(''PanelId'', JStr (panel_id (fst st)))]) st of
           (Inl e, st') \<Rightarrow> (Inl e, st')
         | (Inr response, st') \<Rightarrow>
             fetch_entries net rest
               (if truthy response then dict_set key response data else data) st')
      else fetch_entries net rest data st)"

definition retrieve_all_data ::
  "network \<Rightarrow> state \<Rightarrow> (exn + (string \<times> json) list) \<times> state" where
  "retrieve_all_data net st =
     (case fetch_entries net (data_endpoints (fst st)) [] st of
        (Inl e, st') \<Rightarrow> (Inl e, st')
      | (Inr data, st') \<Rightarrow>
          (case get_lock_status net st' of
             (Inl e, st'') \<Rightarrow> (Inl e, st'')
           | (Inr locks_status, st'') \<Rightarrow>
               (Inr (dict_set ''Lock Status'' locks_status data), st'')))"

section \<open>Action dispatcher\<close>

text \<open>
  \<^verbatim>\<open>self.action_endpoints[name][1]\<close>: the URL of a catalog entry; a missing name raises
  \<^verbatim>\<open>KeyError\<close>.
\<close>

definition action_url :: "api \<Rightarrow> string \<Rightarrow> exn + string" where
  "action_url self name =
     (case map_of (action_endpoints self) name of
        None \<Rightarrow> Inl KeyError
      | Some (method, u) \<Rightarrow> Inr u)"

text \<open>
  The tail every action shares: \<^verbatim>\<open>if result is not None: return True\<close>,
  \<^verbatim>\<open>else: return False\<close>.
\<close>

definition post_action :: "network \<Rightarrow> string \<Rightarrow> json \<Rightarrow> state \<Rightarrow> (exn + bool) \<times> state" where
  "post_action net u payload st =
     (case priv_post net u payload st of
        (Inl e, st') \<Rightarrow> (Inl e, st')
      | (Inr result, st') \<Rightarrow> (Inr (result \<noteq> JNull), st'))"

definition arm_payload :: "api \<Rightarrow> string \<Rightarrow> json" where
  "arm_payload self mode =
     JObj [(''ArmCode'', JStr (panel_code self)), (''PanelId'', JStr (panel_id self)),
           (''ArmType'', JStr mode)]"

definition disarm_payload :: "api \<Rightarrow> json" where
  "disarm_payload self =
     JObj [(''DisarmCode'', JStr (panel_code self)), (''PanelId'', JStr (panel_id self))]"

definition lock_payload :: "api \<Rightarrow> string \<Rightarrow> json" where
  "lock_payload self serial_no =
     JObj [(''LockSerial'', JStr serial_no), (''PanelCode'', JStr (panel_code self)),
           (''PanelId'', JStr (panel_id self)), (''SerialNo'', JStr serial_no)]"

definition plug_payload :: "api \<Rightarrow> string \<Rightarrow> json" where
  "plug_payload self plug_id =
     JObj [(''PanelId'', JStr (panel_id self)), (''DeviceId'', JStr plug_id)]"

definition arm_system :: "network \<Rightarrow> string \<Rightarrow> state \<Rightarrow> (exn + bool) \<times> state" where
  "arm_system net mode st =
     (case action_url (fst st) ''Arm'' of
        Inl e \<Rightarrow> (Inl e, st)
      | Inr u \<Rightarrow> post_action net u (arm_payload (fst st) mode) st)"

definition disarm_system :: "network \<Rightarrow> state \<Rightarrow> (exn + bool) \<times> state" where
  "disarm_system net st =
     (case action_url (fst st) ''Disarm'' of
        Inl e \<Rightarrow> (Inl e, st)
      | Inr u \<Rightarrow> post_action net u (disarm_payload (fst st)) st)"

definition lock_door :: "network \<Rightarrow> string \<Rightarrow> state \<Rightarrow> (exn + bool) \<times> state" where
  "lock_door net serial_no st =
     (case action_url (fst st) ''Lock'' of
        Inl e \<Rightarrow> (Inl e, st)
      | Inr u \<Rightarrow> post_action net u (lock_payload (fst st) serial_no) st)"

definition unlock_door :: "network \<Rightarrow> string \<Rightarrow> state \<Rightarrow> (exn + bool) \<times> state" where
  "unlock_door net serial_no st =
     (case action_url (fst st) ''Unlock'' of
        Inl e \<Rightarrow> (Inl e, st)
      | Inr u \<Rightarrow> post_action net u (lock_payload (fst st) serial_no) st)"

definition turn_on_smartplug :: "network \<Rightarrow> string \<Rightarrow> state \<Rightarrow> (exn + bool) \<times> state" where
  "turn_on_smartplug net plug_id st =
     post_action net (API_URL @ ''/api/Panel/TurnOnSmartplug'')
       (plug_payload (fst st) plug_id) st"

definition turn_off_smartplug :: "network \<Rightarrow> string \<Rightarrow> state \<Rightarrow> (exn + bool) \<times> state" where
  "turn_off_smartplug net plug_id st =
     post_action net (API_URL @ ''/api/Panel/TurnOffSmartplug'')
       (plug_payload (fst st) plug_id) st"

section \<open>Camera image\<close>

unbundle bit_operations_syntax

type_synonym byte = "8 word"

text \<open>
  \<^verbatim>\<open>base64.b64decode\<close> of the standard library in its default, lenient mode, as
  \<^verbatim>\<open>binascii.a2b_base64\<close> computes it: characters outside the alphabet are skipped,
  a pad character ends the input once it completes a group, and leftover characters of
  an incomplete group are an error.
\<close>

definition b64_value :: "char \<Rightarrow> byte option" where
  "b64_value c =
     (let n = (of_char c :: nat) in
      if 65 \<le> n \<and> n \<le> 90 then Some (of_nat (n - 65))
      else if 97 \<le> n \<and> n \<le> 122 then Some (of_nat (n - 71))
      else if 48 \<le> n \<and> n \<le> 57 then Some (of_nat (n + 4))
      else if n = 43 then Some 62
      else if n = 47 then Some 63
      else None)"

fun a2b_base64 :: "string \<Rightarrow> nat \<Rightarrow> byte \<Rightarrow> nat \<Rightarrow> byte list \<Rightarrow> exn + byte list" where
  "a2b_base64 [] quad_pos leftchar pads out =
     (if quad_pos \<noteq> 0 then Inl BinasciiError else Inr out)"
| "a2b_base64 (c # cs) quad_pos leftchar pads out =
     (if c = CHR ''='' then
        (if 2 \<le> quad_pos \<and> 4 \<le> quad_pos + (pads + 1) then Inr out
         else a2b_base64 cs quad_pos leftchar (if 2 \<le> quad_pos then pads + 1 else pads) out)
      else
        (case b64_value c of
           None \<Rightarrow> a2b_base64 cs quad_pos leftchar pads out
         | Some v \<Rightarrow>
             if quad_pos = 0 then a2b_base64 cs 1 v 0 out
             else if quad_pos = 1 then
               a2b_base64 cs 2 (v AND 0x0f) 0 (out @ [push_bit 2 leftchar OR drop_bit 4 v])
             else if quad_pos = 2 then
               a2b_base64 cs 3 (v AND 0x03) 0 (out @ [push_bit 4 leftchar OR drop_bit 2 v])
             else
               a2b_base64 cs 0 0 0 (out @ [push_bit 6 leftchar OR v])))"

text \<open>
  The argument is a decoded JSON value: a string with a character outside ASCII is
  refused with \<^verbatim>\<open>ValueError\<close>, a value that is not a string with \<^verbatim>\<open>TypeError\<close>.
\<close>

definition b64decode :: "json \<Rightarrow> exn + byte list" where
  "b64decode v =
     (case v of
        JStr s \<Rightarrow>
          if list_ex (\<lambda>c. 128 \<le> (of_char c :: nat)) s then Inl ValueError
          else a2b_base64 s 0 0 0 []
      | _ \<Rightarrow> Inl TypeError)"

definition camera_payload :: "api \<Rightarrow> string \<Rightarrow> json" where
  "camera_payload self serial_no =
     JObj [(''PanelId'', JStr (panel_id self)), (''SerialNo'', JStr serial_no)]"

text \<open>
  \<^verbatim>\<open>response and response.get("ImageData")\<close>: the second operand is only evaluated for a
  truthy response, where it needs a dictionary.
\<close>

definition get_camera_image ::
  "network \<Rightarrow> string \<Rightarrow> state \<Rightarrow> (exn + byte list option) \<times> state" where
  "get_camera_image net serial_no st =
     (case priv_post net (API_URL @ ''/api/camera/GetCameraImage'')
             (camera_payload (fst st) serial_no) st of
        (Inl e, st') \<Rightarrow> (Inl e, st')
      | (Inr response, st') \<Rightarrow>
          if \<not> truthy response then (Inr None, st')
          else
            (case dict_get response ''ImageData'' of
               Inl e \<Rightarrow> (Inl e, st')
             | Inr encoded \<Rightarrow>
                 if \<not> truthy encoded then (Inr None, st')
                 else
                   (case b64decode encoded of
                      Inl e \<Rightarrow> (Inl e, st')
                    | Inr image_data \<Rightarrow> (Inr (Some image_data), st'))))"

section \<open>Sequences of calls\<close>

text \<open>
  The public methods of the class, and the state a call leaves behind, whether it
  returns or raises. A run is a sequence of calls on one client object.
\<close>

datatype call =
    Login
  | RetrieveAllData
  | GetLockStatus
  | ArmSystem string
  | DisarmSystem
  | LockDoor string
  | UnlockDoor string
  | TurnOnSmartplug string
  | TurnOffSmartplug string
  | GetCameraImage string
  | Logout
  | Close





section \<open>Fixtures for concrete runs\<close>

definition always :: "http_outcome \<Rightarrow> network" where
  "always out = (\<lambda>trace rq. out)"


text \<open>
  Replies whose body reads as text: one labelled JSON and decoding to \<open>v\<close>, and one
  with the same body labelled \<open>text/html\<close>. A third reply has a body that decodes
  neither as JSON nor as text, and the body of a fourth never arrives in time.
\<close>

definition json_response :: "int \<Rightarrow> json \<Rightarrow> http_outcome" where
  "json_response code v =
     Responded \<lparr>status = code, content_type = Some ''application/json'',
                json_result = Inr v, text_result = Inr ''body''\<rparr>"

definition html_response :: "int \<Rightarrow> json \<Rightarrow> http_outcome" where
  "html_response code v =
     Responded \<lparr>status = code, content_type = Some ''text/html'',
                json_result = Inr v, text_result = Inr ''body''\<rparr>"

definition undecodable_response :: "int \<Rightarrow> http_outcome" where
  "undecodable_response code =
     Responded \<lparr>status = code, content_type = Some ''application/json'',
                json_result = Inl JSONDecodeError, text_result = Inl UnicodeDecodeError\<rparr>"


definition plain_fmt :: "json \<Rightarrow> string" where
  "plain_fmt v = ''?''"


definition demo_data_endpoints :: "(string \<times> string \<times> string) list" where
  "demo_data_endpoints =
     [(''Panel Status'', ''GET'', ''https://example.test/status''),
      (''Temperatures'', ''POST'', ''https://example.test/temperatures''),
      (''Legacy'', ''PUT'', ''https://example.test/legacy'')]"

definition demo_action_endpoints :: "(string \<times> string \<times> string) list" where
  "demo_action_endpoints =
     [(''Arm'', ''POST'', ''https://example.test/arm''),
      (''Disarm'', ''POST'', ''https://example.test/disarm''),
      (''Lock'', ''POST'', ''https://example.test/lock''),
      (''Unlock'', ''POST'', ''https://example.test/unlock'')]"

definition demo_api :: api where
  "demo_api = init ''user@example.test'' ''secret'' ''P1'' ''1234''
                demo_data_endpoints demo_action_endpoints"


text \<open>The client after a login that opened session 0 and received the token \<open>T1\<close>.\<close>

definition demo_logged_in :: state where
  "demo_logged_in =
     (demo_api\<lparr>access_token := JStr ''T1'', headers := auth_headers plain_fmt (JStr ''T1''),
               session := Some 0\<rparr>,
      \<lparr>sent = [login_request demo_api], created = 1, open_sessions = [0]\<rparr>)"

section \<open>Basic facts about the request executor\<close>


lemma priv_post_open:
  "session self = Some h \<Longrightarrow>
   priv_post net u payload (self, w) =
     (except_to_none (read_response (net (sent w) (post_request self u payload))),
      self, w\<lparr>sent := sent w @ [post_request self u payload]\<rparr>)"
  by (simp add: priv_post_def http_request_def)

lemma demo_logged_in_session: "session (fst demo_logged_in) = Some 0"
  by (simp add: demo_logged_in_def)




lemma priv_get_self: "fst (snd (priv_get net u st)) = fst st"
  by (cases st) (simp add: priv_get_def http_request_def split: option.splits)

lemma priv_post_self: "fst (snd (priv_post net u p st)) = fst st"
  by (cases st) (simp add: priv_post_def http_request_def split: option.splits)

lemma post_action_self: "fst (snd (post_action net u p st)) = fst st"
  using priv_post_self [of net u p st]
  by (cases "priv_post net u p st") (auto simp: post_action_def split: sum.splits)

lemma get_lock_status_self: "fst (snd (get_lock_status net st)) = fst st"
  using priv_get_self [of net "lock_status_url (fst st)" st]
  by (cases "priv_get net (lock_status_url (fst st)) st") (auto simp: get_lock_status_def split: sum.splits)

lemma fetch_entries_self: "fst (snd (fetch_entries net eps data st)) = fst st"
proof (induction eps arbitrary: data st)
  case Nil
  then show ?case by simp
next
  case (Cons entry eps)
  obtain key meth u where entry: "entry = (key, meth, u)"
    by (cases entry) auto
  show ?case
  proof (cases "meth = ''GET''")
    case True
    obtain res st' where g: "priv_get net u st = (res, st')"
      by (cases "priv_get net u st") auto
    with priv_get_self [of net u st] have "fst st' = fst st" by simp
    with g True entry Cons.IH show ?thesis
      by (cases res) simp_all
  next
    case False
    show ?thesis
    proof (cases "meth = ''POST''")
      case True
      obtain res st' where g: "priv_post net u (JObj [(''PanelId'', JStr (panel_id (fst st)))]) st = (res, st')"
        by (cases "priv_post net u (JObj [(''PanelId'', JStr (panel_id (fst st)))]) st") auto
      with priv_post_self [of net u "JObj [(''PanelId'', JStr (panel_id (fst st)))]" st] have "fst st' = fst st" by simp
      with g True \<open>meth \<noteq> ''GET''\<close> entry Cons.IH show ?thesis
        by (cases res) simp_all
    next
      case notpost: False
      with False entry Cons.IH show ?thesis by simp
    qed
  qed
qed

lemma retrieve_all_data_self: "fst (snd (retrieve_all_data net st)) = fst st"
proof -
  obtain res st' where f: "fetch_entries net (data_endpoints (fst st)) [] st = (res, st')"
    by (cases "fetch_entries net (data_endpoints (fst st)) [] st") auto
  with fetch_entries_self [of net "data_endpoints (fst st)" "[]" st] have s: "fst st' = fst st"
    by simp
  show ?thesis
  proof (cases res)
    case (Inl e)
    with f s show ?thesis by (simp add: retrieve_all_data_def)
  next
    case (Inr data)
    obtain res2 st2 where g: "get_lock_status net st' = (res2, st2)"
      by (cases "get_lock_status net st'") auto
    with get_lock_status_self [of net st'] s have "fst st2 = fst st" by simp
    with f g Inr show ?thesis
      by (cases res2) (simp_all add: retrieve_all_data_def)
  qed
qed

lemma get_camera_image_self: "fst (snd (get_camera_image net serial_no st)) = fst st"
  using priv_post_self [of net "API_URL @ ''/api/camera/GetCameraImage''" "camera_payload (fst st) serial_no" st]
  by (cases "priv_post net (API_URL @ ''/api/camera/GetCameraImage'') (camera_payload (fst st) serial_no) st")
     (auto simp: get_camera_image_def split: sum.splits)

lemma post_action_sent:
  "session self = Some h \<Longrightarrow>
   sent (snd (snd (post_action net u p (self, w)))) = sent w @ [post_request self u p]"
  by (simp add: post_action_def priv_post_open split: sum.splits)

lemma post_action_result:
  "fst (priv_post net u p st) = Inr v \<Longrightarrow> fst (post_action net u p st) = Inr (v \<noteq> JNull)"
  by (cases "priv_post net u p st") (simp add: post_action_def)

lemma priv_post_demo:
  "priv_post net u p demo_logged_in =
     (except_to_none (read_response
        (net (sent (snd demo_logged_in)) (post_request (fst demo_logged_in) u p))),
      fst demo_logged_in,
      (snd demo_logged_in)\<lparr>sent := sent (snd demo_logged_in)
                                     @ [post_request (fst demo_logged_in) u p]\<rparr>)"
  using priv_post_open [OF demo_logged_in_session, of net u p "snd demo_logged_in"] by simp


lemma demo_fields:
  "panel_id (fst demo_logged_in) = ''P1''"
  "panel_code (fst demo_logged_in) = ''1234''"
  "headers (fst demo_logged_in) = [(''Authorization'', ''Bearer T1''), (''Accept'', ''application/json'')]"
  "access_token (fst demo_logged_in) = JStr ''T1''"
  "action_endpoints (fst demo_logged_in) = demo_action_endpoints"
  "data_endpoints (fst demo_logged_in) = demo_data_endpoints"
  "sent (snd demo_logged_in) = [login_request demo_api]"
  "open_sessions (snd demo_logged_in) = [0]"
  by (simp_all add: demo_logged_in_def demo_api_def init_def auth_headers_def bearer_def)


lemma executor_fixtures:
  "except_to_none (read_response (json_response 200 v)) = Inr v"
  "code \<noteq> 200 \<Longrightarrow> except_to_none (read_response (json_response code v)) = Inr JNull"
  "except_to_none (read_response (html_response code v)) = Inr JNull"
  "except_to_none (read_response (undecodable_response 200)) = Inl JSONDecodeError"
  "code \<noteq> 200 \<Longrightarrow>
     except_to_none (read_response (undecodable_response code)) = Inl UnicodeDecodeError"
  "except_to_none (read_response (Raised TimeoutError)) = Inr JNull"
  "except_to_none (read_response (Raised ClientError)) = Inr JNull"
  by (simp_all add: read_response_def except_to_none_def json_response_def html_response_def
        undecodable_response_def log_text_return_none_def
        header_or_empty_def)

section \<open>Facts about the loop, the invariant and the fixtures\<close>



















lemma priv_post_always:
  "session self = Some h \<Longrightarrow>
   fst (priv_post (always out) u p (self, w)) = except_to_none (read_response out)"
  by (simp add: priv_post_open always_def)

section \<open>Claims\<close>















text \<open>
  C6. Every action builds its payload, posts it through \<^verbatim>\<open>_post\<close> to its URL (the
  catalog's for arm, disarm, lock and unlock; a fixed one for the smart plugs) and
  returns \<^verbatim>\<open>True\<close> exactly when \<^verbatim>\<open>_post\<close> returned something other than \<^verbatim>\<open>None\<close>.
  The payloads are \<open>{ArmCode, PanelId, ArmType}\<close>, \<open>{DisarmCode, PanelId}\<close>,
  \<open>{LockSerial, PanelCode, PanelId, SerialNo}\<close> and \<open>{PanelId, DeviceId}\<close>.
\<close>

theorem actions_post_payload_and_report:
  assumes "session self = Some h"
    and "map_of (action_endpoints self) ''Arm'' = Some (m1, arm_url)"
    and "map_of (action_endpoints self) ''Disarm'' = Some (m2, disarm_url)"
    and "map_of (action_endpoints self) ''Lock'' = Some (m3, lock_url)"
    and "map_of (action_endpoints self) ''Unlock'' = Some (m4, unlock_url)"
  shows
   "(let p = JObj [(''ArmCode'', JStr (panel_code self)), (''PanelId'', JStr (panel_id self)),
                   (''ArmType'', JStr mode)];
         r = arm_system net mode (self, w)
     in sent (snd (snd r)) = sent w @ [\<lparr>req_method = POST, req_url = arm_url,
                                          req_json = Some p, req_headers = headers self\<rparr>]
        \<and> (\<forall>v. fst (priv_post net arm_url p (self, w)) = Inr v \<longrightarrow> fst r = Inr (v \<noteq> JNull)))
  \<and> (let p = JObj [(''DisarmCode'', JStr (panel_code self)), (''PanelId'', JStr (panel_id self))];
         r = disarm_system net (self, w)
     in sent (snd (snd r)) = sent w @ [\<lparr>req_method = POST, req_url = disarm_url,
                                          req_json = Some p, req_headers = headers self\<rparr>]
        \<and> (\<forall>v. fst (priv_post net disarm_url p (self, w)) = Inr v \<longrightarrow> fst r = Inr (v \<noteq> JNull)))
  \<and> (let p = JObj [(''LockSerial'', JStr serial_no), (''PanelCode'', JStr (panel_code self)),
                   (''PanelId'', JStr (panel_id self)), (''SerialNo'', JStr serial_no)];
         r = lock_door net serial_no (self, w)
     in sent (snd (snd r)) = sent w @ [\<lparr>req_method = POST, req_url = lock_url,
                                          req_json = Some p, req_headers = headers self\<rparr>]
        \<and> (\<forall>v. fst (priv_post net lock_url p (self, w)) = Inr v \<longrightarrow> fst r = Inr (v \<noteq> JNull)))
  \<and> (let p = JObj [(''LockSerial'', JStr serial_no), (''PanelCode'', JStr (panel_code self)),
                   (''PanelId'', JStr (panel_id self)), (''SerialNo'', JStr serial_no)];
         r = unlock_door net serial_no (self, w)
     in sent (snd (snd r)) = sent w @ [\<lparr>req_method = POST, req_url = unlock_url,
                                          req_json = Some p, req_headers = headers self\<rparr>]
        \<and> (\<forall>v. fst (priv_post net unlock_url p (self, w)) = Inr v \<longrightarrow> fst r = Inr (v \<noteq> JNull)))
  \<and> (let p = JObj [(''PanelId'', JStr (panel_id self)), (''DeviceId'', JStr plug_id)];
         u = API_URL @ ''/api/Panel/TurnOnSmartplug'';
         r = turn_on_smartplug net plug_id (self, w)
     in sent (snd (snd r)) = sent w @ [\<lparr>req_method = POST, req_url = u,
                                          req_json = Some p, req_headers = headers self\<rparr>]
        \<and> (\<forall>v. fst (priv_post net u p (self, w)) = Inr v \<longrightarrow> fst r = Inr (v \<noteq> JNull)))
  \<and> (let p = JObj [(''PanelId'', JStr (panel_id self)), (''DeviceId'', JStr plug_id)];
         u = API_URL @ ''/api/Panel/TurnOffSmartplug'';
         r = turn_off_smartplug net plug_id (self, w)
     in sent (snd (snd r)) = sent w @ [\<lparr>req_method = POST, req_url = u,
                                          req_json = Some p, req_headers = headers self\<rparr>]
        \<and> (\<forall>v. fst (priv_post net u p (self, w)) = Inr v \<longrightarrow> fst r = Inr (v \<noteq> JNull)))"
proof -
  have arm: "arm_system net mode (self, w) = post_action net arm_url (arm_payload self mode) (self, w)"
    using assms(2) by (simp add: arm_system_def action_url_def)
  have disarm: "disarm_system net (self, w) = post_action net disarm_url (disarm_payload self) (self, w)"
    using assms(3) by (simp add: disarm_system_def action_url_def)
  have lock: "lock_door net serial_no (self, w) = post_action net lock_url (lock_payload self serial_no) (self, w)"
    using assms(4) by (simp add: lock_door_def action_url_def)
  have unlock: "unlock_door net serial_no (self, w) = post_action net unlock_url (lock_payload self serial_no) (self, w)"
    using assms(5) by (simp add: unlock_door_def action_url_def)
  have on: "turn_on_smartplug net plug_id (self, w)
      = post_action net (API_URL @ ''/api/Panel/TurnOnSmartplug'') (plug_payload self plug_id) (self, w)"
    by (simp add: turn_on_smartplug_def)
  have off: "turn_off_smartplug net plug_id (self, w)
      = post_action net (API_URL @ ''/api/Panel/TurnOffSmartplug'') (plug_payload self plug_id) (self, w)"
    by (simp add: turn_off_smartplug_def)
  note sent = post_action_sent [OF assms(1)]
  show ?thesis
    unfolding Let_def arm disarm lock unlock on off sent
    by (simp add: post_action_result post_request_def arm_payload_def disarm_payload_def
          lock_payload_def plug_payload_def)
qed

theorem actions_post_payload_and_report_witness:
  "session (fst demo_logged_in) = Some 0
   \<and> map_of (action_endpoints (fst demo_logged_in)) ''Arm''
       = Some (''POST'', ''https://example.test/arm'')
   \<and> fst (arm_system (always (json_response 200 (JObj []))) ''total'' demo_logged_in) = Inr True
   \<and> fst (arm_system (always (json_response 500 (JObj []))) ''total'' demo_logged_in) = Inr False
   \<and> sent (snd (snd (arm_system (always (json_response 500 (JObj []))) ''total'' demo_logged_in)))
       = [login_request demo_api,
          \<lparr>req_method = POST, req_url = ''https://example.test/arm'',
           req_json = Some (JObj [(''ArmCode'', JStr ''1234''), (''PanelId'', JStr ''P1''),
                                  (''ArmType'', JStr ''total'')]),
           req_headers = [(''Authorization'', ''Bearer T1''), (''Accept'', ''application/json'')]\<rparr>]"
  using
    actions_post_payload_and_report [of "fst demo_logged_in" 0
      "''POST''" "''https://example.test/arm''" "''POST''" "''https://example.test/disarm''"
      "''POST''" "''https://example.test/lock''" "''POST''" "''https://example.test/unlock''"
      "''total''" "always (json_response 200 (JObj []))" "snd demo_logged_in"]
    actions_post_payload_and_report [of "fst demo_logged_in" 0
      "''POST''" "''https://example.test/arm''" "''POST''" "''https://example.test/disarm''"
      "''POST''" "''https://example.test/lock''" "''POST''" "''https://example.test/unlock''"
      "''total''" "always (json_response 500 (JObj []))" "snd demo_logged_in"]
  by (simp add: Let_def priv_post_demo always_def executor_fixtures demo_fields
        demo_logged_in_session demo_action_endpoints_def)

text \<open>
  C7, as the code has it. When \<^verbatim>\<open>_post\<close> returns an object with a non-empty
  \<^verbatim>\<open>ImageData\<close> field, \<^verbatim>\<open>get_camera_image\<close> returns that field's value base64-decoded
  (\<open>aGVsbG8=\<close> gives the bytes of \<open>hello\<close>); when the field is missing or empty
  (\<^verbatim>\<open>None\<close>, the empty string), or when there is no response, it returns \<^verbatim>\<open>None\<close>.
\<close>

theorem camera_image_decoding:
  assumes "fst (priv_post net (API_URL @ ''/api/camera/GetCameraImage'')
                  (JObj [(''PanelId'', JStr (panel_id self)), (''SerialNo'', JStr serial_no)])
                  (self, w)) = Inr response"
  shows "(\<forall>kvs v bs. response = JObj kvs \<and> map_of kvs ''ImageData'' = Some v \<and> truthy v
                \<and> b64decode v = Inr bs
            \<longrightarrow> fst (get_camera_image net serial_no (self, w)) = Inr (Some bs))
       \<and> (\<forall>kvs v. response = JObj kvs \<and> map_of kvs ''ImageData'' = Some v \<and> \<not> truthy v
            \<longrightarrow> fst (get_camera_image net serial_no (self, w)) = Inr None)
       \<and> (\<forall>kvs. response = JObj kvs \<and> map_of kvs ''ImageData'' = None
            \<longrightarrow> fst (get_camera_image net serial_no (self, w)) = Inr None)
       \<and> (response = JNull
            \<longrightarrow> fst (get_camera_image net serial_no (self, w)) = Inr None)"
  using assms
  by (cases "priv_post net (API_URL @ ''/api/camera/GetCameraImage'')
                  (JObj [(''PanelId'', JStr (panel_id self)), (''SerialNo'', JStr serial_no)])
                  (self, w)")
     (auto simp: get_camera_image_def camera_payload_def dict_get_def)

theorem camera_image_decoding_witness:
  "fst (get_camera_image (always (json_response 200 (JObj [(''ImageData'', JStr ''aGVsbG8='')])))
          ''cam1'' demo_logged_in)
     = Inr (Some (map of_char ''hello''))
   \<and> fst (get_camera_image (always (json_response 200 (JObj [(''ImageData'', JNull)])))
          ''cam1'' demo_logged_in) = Inr None
   \<and> fst (get_camera_image (always (json_response 200 (JObj [(''Status'', JStr ''ok'')])))
          ''cam1'' demo_logged_in) = Inr None
   \<and> fst (get_camera_image (always (json_response 500 JNull)) ''cam1'' demo_logged_in)
     = Inr None"
  using
    camera_image_decoding [of "always (json_response 200 (JObj [(''ImageData'', JStr ''aGVsbG8='')]))"
      "fst demo_logged_in" "''cam1''" "snd demo_logged_in"
      "JObj [(''ImageData'', JStr ''aGVsbG8='')]"]
    camera_image_decoding [of "always (json_response 200 (JObj [(''ImageData'', JNull)]))"
      "fst demo_logged_in" "''cam1''" "snd demo_logged_in" "JObj [(''ImageData'', JNull)]"]
    camera_image_decoding [of "always (json_response 200 (JObj [(''Status'', JStr ''ok'')]))"
      "fst demo_logged_in" "''cam1''" "snd demo_logged_in" "JObj [(''Status'', JStr ''ok'')]"]
    camera_image_decoding [of "always (json_response 500 JNull)"
      "fst demo_logged_in" "''cam1''" "snd demo_logged_in" JNull]
  by (simp add: priv_post_demo always_def executor_fixtures demo_fields b64decode_def
        b64_value_def)

text \<open>
  Against C7 as stated: a response that contains the field \<^verbatim>\<open>ImageData\<close> with the empty
  string, whose base64 decoding is the empty byte buffer, yields \<^verbatim>\<open>None\<close>.
\<close>

theorem camera_image_empty_field_counterexample:
  "fst (get_camera_image (always (json_response 200 (JObj [(''ImageData'', JStr [])])))
          ''cam1'' demo_logged_in) = Inr None
   \<and> b64decode (JStr []) = Inr []"
  by (simp add: get_camera_image_def priv_post_demo always_def executor_fixtures
        dict_get_def b64decode_def)

text \<open>
  C8. \<^verbatim>\<open>close()\<close> never raises and leaves no session object; a session that was held is
  no longer open afterwards; a second \<^verbatim>\<open>close()\<close> changes nothing, and neither does
  \<^verbatim>\<open>close()\<close> on a client that never opened a session.
\<close>

theorem close_idempotent:
  "fst (close st) = Inr ()
   \<and> session (fst (snd (close st))) = None
   \<and> (\<forall>h. session (fst st) = Some h \<longrightarrow> h \<notin> set (open_sessions (snd (snd (close st)))))
   \<and> close (snd (close st)) = (Inr (), snd (close st))
   \<and> close (init em pw pid pcode data_eps action_eps, w)
       = (Inr (), init em pw pid pcode data_eps action_eps, w)"
  by (cases st) (auto simp: close_def init_def split: option.splits)

theorem close_idempotent_witness:
  "session (fst demo_logged_in) = Some 0
   \<and> fst (close demo_logged_in) = Inr ()
   \<and> session (fst (snd (close demo_logged_in))) = None
   \<and> 0 \<notin> set (open_sessions (snd (snd (close demo_logged_in))))
   \<and> close (snd (close demo_logged_in)) = (Inr (), snd (close demo_logged_in))"
  using close_idempotent [of demo_logged_in] demo_logged_in_session
  by simp




text \<open>
  C10. The data, action and camera operations return the client object as they found
  it, whether they return a value or raise: credentials, token, headers, session and
  endpoint tables are unchanged.
\<close>

theorem operations_leave_session_state:
  "fst (snd (retrieve_all_data net st)) = fst st
   \<and> fst (snd (get_lock_status net st)) = fst st
   \<and> fst (snd (arm_system net mode st)) = fst st
   \<and> fst (snd (disarm_system net st)) = fst st
   \<and> fst (snd (lock_door net serial_no st)) = fst st
   \<and> fst (snd (unlock_door net serial_no st)) = fst st
   \<and> fst (snd (turn_on_smartplug net plug_id st)) = fst st
   \<and> fst (snd (turn_off_smartplug net plug_id st)) = fst st
   \<and> fst (snd (get_camera_image net serial_no st)) = fst st"
  by (simp add: retrieve_all_data_self get_lock_status_self get_camera_image_self
        arm_system_def disarm_system_def lock_door_def unlock_door_def
        turn_on_smartplug_def turn_off_smartplug_def post_action_self split: sum.splits)

end
